theory Spec2Isabelle
  imports Main "HOL-Library.Word"
begin

section \<open>JavaScript strings\<close>

text \<open>
  A JavaScript string is a sequence of UTF-16 code units; \<open>length\<close> counts code units and
  \<open>===\<close> compares them one by one.  Literals of the source are written with \<open>lit\<close>, which
  maps every (ASCII) character of an Isabelle string to its code unit.
\<close>

type_synonym jsstring = "16 word list"

definition lit :: "string \<Rightarrow> jsstring" where
  "lit s = map of_char s"

text \<open>
  \<open>String.prototype.trim\<close> removes the ECMAScript WhiteSpace and LineTerminator code points
  from both ends.  All of them lie in the Basic Multilingual Plane, so each is one code unit.
\<close>

definition isWhiteSpace :: "16 word \<Rightarrow> bool" where
  "isWhiteSpace c = (c \<in> set [0x0009, 0x000A, 0x000B, 0x000C, 0x000D, 0x0020, 0x00A0, 0x1680,
     0x2000, 0x2001, 0x2002, 0x2003, 0x2004, 0x2005, 0x2006, 0x2007, 0x2008, 0x2009, 0x200A,
     0x2028, 0x2029, 0x202F, 0x205F, 0x3000, 0xFEFF])"

definition trim :: "jsstring \<Rightarrow> jsstring" where
  "trim s = rev (dropWhile isWhiteSpace (rev (dropWhile isWhiteSpace s)))"

text \<open>\<open>s.includes(pat)\<close>: \<open>pat\<close> occurs in \<open>s\<close> as a contiguous run of code units.\<close>

fun startsWith :: "jsstring \<Rightarrow> jsstring \<Rightarrow> bool" where
  "startsWith s [] = True"
| "startsWith [] (p # ps) = False"
| "startsWith (c # cs) (p # ps) = (c = p \<and> startsWith cs ps)"

fun includes_str :: "jsstring \<Rightarrow> jsstring \<Rightarrow> bool" where
  "includes_str [] pat = (pat = [])"
| "includes_str (c # cs) pat = (startsWith (c # cs) pat \<or> includes_str cs pat)"

text \<open>
  Truthiness of a value of type \<open>string | null\<close>: \<open>null\<close> and the empty string are falsy.
\<close>

fun truthy :: "jsstring option \<Rightarrow> bool" where
  "truthy None = False"
| "truthy (Some s) = (s \<noteq> [])"


section \<open>UserSelector: the assignment candidates\<close>

text \<open>
  \<open>type UserProfile = { id: string; email: string; name: string | null }\<close>.
  Field names carry the record's name as a prefix, since \<open>id\<close>, \<open>email\<close> and \<open>user_id\<close>
  occur in several row types of the program.
\<close>

record UserProfile =
  profile_id :: jsstring
  profile_email :: jsstring
  profile_name :: "jsstring option"

text \<open>
  What \<open>fetch('/api/users')\<close> followed by \<open>response.json()\<close> delivers.  A rejected fetch, a
  response that is not \<open>ok\<close> and a body without a \<open>users\<close> array all end in the same
  \<open>catch\<close> block, so they are one constructor.
\<close>

datatype directoryResponse = FetchFailed | FetchOk "UserProfile list"

record UserSelectorState =
  users :: "UserProfile list"
  loading :: bool

text \<open>The state at mount: \<open>useState([])\<close> and \<open>useState(true)\<close>.\<close>

definition userSelectorInit :: UserSelectorState where
  "userSelectorInit = \<lparr>users = [], loading = True\<rparr>"

text \<open>
  \<open>fetchUsers\<close> of the effect, run to completion: on success the directory is filtered
  (\<open>user.id !== currentUserId\<close>), projected to the three fields and stored; on any failure
  the error is logged and \<open>users\<close> keeps its value.  \<open>finally\<close> clears \<open>loading\<close>.
\<close>

definition fetchUsers :: "jsstring \<Rightarrow> directoryResponse \<Rightarrow> UserSelectorState \<Rightarrow> UserSelectorState" where
  "fetchUsers currentUserId response st =
     (case response of
        FetchFailed \<Rightarrow> st\<lparr>loading := False\<rparr>
      | FetchOk dataUsers \<Rightarrow>
          st\<lparr>users :=
               map (\<lambda>user. \<lparr>profile_id = profile_id user, profile_email = profile_email user,
                              profile_name = profile_name user\<rparr>)
                 (filter (\<lambda>user. profile_id user \<noteq> currentUserId) dataUsers),
             loading := False\<rparr>)"

text \<open>
  The \<open>value\<close> attributes of the rendered \<open><option>\<close> elements (\<open>Unassigned\<close> first),
  and what \<open>onChange\<close> hands to \<open>onSelect\<close>: \<open>e.target.value || null\<close>.
\<close>

definition optionValues :: "UserSelectorState \<Rightarrow> jsstring list" where
  "optionValues st = [] # map profile_id (users st)"

definition onChange :: "jsstring \<Rightarrow> jsstring option" where
  "onChange v = (if v = [] then None else Some v)"


section \<open>Rows and responses of the remote store\<close>

text \<open>
  \<open>Database['public']['Tables']['todos']['Row']\<close>.  \<open>id: number\<close> is the store's
  \<open>BIGINT\<close> identity; timestamps are the ISO texts the store sends, and the program never
  compares them itself.
\<close>

record Todos =
  todo_id :: int
  inserted_at :: jsstring
  is_complete :: "bool option"
  task :: "jsstring option"
  user_id :: jsstring
  assigned_to :: "jsstring option"
  due_date :: "jsstring option"
  created_by :: jsstring

text \<open>The object \<open>newTodo\<close> that \<open>addTodo\<close> hands to \<open>insert\<close>.\<close>

record TodoInsert =
  new_task :: jsstring
  new_user_id :: jsstring
  new_assigned_to :: "jsstring option"
  new_due_date :: "jsstring option"
  new_created_by :: jsstring

text \<open>\<open>Database['public']['Tables']['notifications']['Row']\<close> and the object inserted by
  \<open>createTaskAssignmentNotification\<close>.\<close>

record NotificationType =
  notif_id :: int
  notif_user_id :: jsstring
  notif_task_id :: int
  notif_message :: jsstring
  is_read :: bool
  created_at :: jsstring

record NotificationInsert =
  ins_user_id :: jsstring
  ins_task_id :: int
  ins_message :: jsstring
  ins_is_read :: bool

text \<open>
  The store answers every call with \<open>{ data, error }\<close>.  Of the error only \<open>message\<close> is
  read by the program.
\<close>

record PostgrestError =
  message :: jsstring

record 'a response =
  data :: "'a option"
  error :: "PostgrestError option"

text \<open>The signed-in user of \<open>useUser()\<close>: \<open>id\<close> and the optional \<open>email\<close>.\<close>

record User =
  auth_id :: jsstring
  auth_email :: "jsstring option"


section \<open>TodoList: the change feed\<close>











section \<open>TodoList: the filter effect\<close>

datatype FilterType = allTasks | assignedToMe | createdByMe | overdue | dueToday

text \<open>
  A \<open>Date\<close> object is its time value in milliseconds, or \<open>None\<close> for an Invalid Date (time
  value \<open>NaN\<close>).  The two operations of the JavaScript runtime that the effect uses are
  parameters: \<open>newDate\<close> is \<open>new Date(text)\<close>, and \<open>setHours0\<close> is the time value that
  \<open>setHours(0, 0, 0, 0)\<close> leaves, the start of the local calendar day.  \<open>setHours\<close> leaves an
  Invalid Date invalid; every comparison with \<open>NaN\<close> is false.
\<close>

definition dayOf :: "(jsstring \<Rightarrow> int option) \<Rightarrow> (int \<Rightarrow> int) \<Rightarrow> jsstring \<Rightarrow> int option" where
  "dayOf newDate setHours0 text = map_option setHours0 (newDate text)"

text \<open>
  The two predicates handed to \<open>todos.filter\<close>; \<open>today\<close> is \<open>new Date()\<close> after
  \<open>setHours(0, 0, 0, 0)\<close>.  \<open>!todo.due_date\<close> holds for \<open>null\<close> and for the empty text;
  \<open>!todo.is_complete\<close> holds for \<open>null\<close> and \<open>false\<close>.
\<close>

definition overdueTodo ::
  "(jsstring \<Rightarrow> int option) \<Rightarrow> (int \<Rightarrow> int) \<Rightarrow> int \<Rightarrow> Todos \<Rightarrow> bool" where
  "overdueTodo newDate setHours0 today todo =
     (case due_date todo of
        None \<Rightarrow> False
      | Some text \<Rightarrow>
          if text = [] then False
          else (case dayOf newDate setHours0 text of
                  None \<Rightarrow> False
                | Some dueDate \<Rightarrow> dueDate < today \<and> is_complete todo \<noteq> Some True))"

definition dueTodayTodo ::
  "(jsstring \<Rightarrow> int option) \<Rightarrow> (int \<Rightarrow> int) \<Rightarrow> int \<Rightarrow> Todos \<Rightarrow> bool" where
  "dueTodayTodo newDate setHours0 today todo =
     (case due_date todo of
        None \<Rightarrow> False
      | Some text \<Rightarrow>
          if text = [] then False
          else (case dayOf newDate setHours0 text of
                  None \<Rightarrow> False
                | Some dueDate \<Rightarrow> dueDate = today \<and> is_complete todo \<noteq> Some True))"

text \<open>\<open>user?.id\<close> is \<open>undefined\<close> without a user, and equal to no \<open>string | null\<close>.\<close>

definition isUser :: "User option \<Rightarrow> jsstring option \<Rightarrow> bool" where
  "isUser user v = (case user of None \<Rightarrow> False | Some u \<Rightarrow> v = Some (auth_id u))"

text \<open>The value the effect hands to \<open>setFilteredTodos\<close>; \<open>now\<close> is the time value of
  \<open>new Date()\<close>.\<close>

definition filteredTodos ::
  "(jsstring \<Rightarrow> int option) \<Rightarrow> (int \<Rightarrow> int) \<Rightarrow> User option \<Rightarrow> Todos list \<Rightarrow> FilterType \<Rightarrow> int
     \<Rightarrow> Todos list" where
  "filteredTodos newDate setHours0 user todos currentFilter now =
     (if todos = [] then []
      else let today = setHours0 now in
        (case currentFilter of
           assignedToMe \<Rightarrow> filter (\<lambda>todo. isUser user (assigned_to todo)) todos
         | createdByMe \<Rightarrow> filter (\<lambda>todo. isUser user (Some (user_id todo))) todos
         | overdue \<Rightarrow> filter (overdueTodo newDate setHours0 today) todos
         | dueToday \<Rightarrow> filter (dueTodayTodo newDate setHours0 today) todos
         | allTasks \<Rightarrow> todos))"

section \<open>Notification: the per-recipient feed\<close>

text \<open>The component's state: \<open>useState([])\<close> and \<open>useState(0)\<close>.\<close>

record NotificationState =
  notifications :: "NotificationType list"
  unreadCount :: int

definition notificationInit :: NotificationState where
  "notificationInit = \<lparr>notifications = [], unreadCount = 0\<rparr>"

text \<open>
  \<open>fetchNotifications\<close>, given the store's answer to the query (recipient's rows, ordered by
  \<open>created_at\<close> descending, limit 20): an error is logged; data replaces the list and the
  counter is recomputed from its flags.
\<close>

definition fetchNotifications ::
  "NotificationType list response \<Rightarrow> NotificationState \<Rightarrow> NotificationState" where
  "fetchNotifications res st =
     (case error res of
        Some e \<Rightarrow> st
      | None \<Rightarrow>
          (case data res of
             None \<Rightarrow> st
           | Some rows \<Rightarrow>
               st\<lparr>notifications := rows,
                  unreadCount := int (length (filter (\<lambda>n. \<not> is_read n) rows))\<rparr>))"

text \<open>The callback of the \<open>INSERT\<close> subscription, applied to \<open>payload.new\<close>.\<close>

definition onNotificationInsert :: "NotificationType \<Rightarrow> NotificationState \<Rightarrow> NotificationState" where
  "onNotificationInsert newNotification st =
     st\<lparr>notifications := newNotification # notifications st,
        unreadCount := unreadCount st + 1\<rparr>"

text \<open>
  \<open>markAsRead(id)\<close> and \<open>markAllAsRead()\<close> await the store's update and then, when its
  \<open>error\<close> is null, write the state.  The list they write is
  \<open>setNotifications(notifications.map(...))\<close>: the mapped value of \<open>notifications\<close> as the
  function closed over it, that is the view \<open>captured\<close> at the click, whatever was put on
  the view while the update was pending.  The counter is written with
  \<open>setUnreadCount(prev => Math.max(0, prev - 1))\<close>, from its value when the answer arrives.
  The state \<open>st\<close> is the state at the moment of the answer.
\<close>

definition markAsRead ::
  "PostgrestError option \<Rightarrow> int \<Rightarrow> NotificationType list \<Rightarrow> NotificationState \<Rightarrow> NotificationState" where
  "markAsRead err i captured st =
     (case err of
        Some e \<Rightarrow> st
      | None \<Rightarrow>
          st\<lparr>notifications :=
               map (\<lambda>n. if notif_id n = i then n\<lparr>is_read := True\<rparr> else n) captured,
             unreadCount := max 0 (unreadCount st - 1)\<rparr>)"

definition markAllAsRead ::
  "PostgrestError option \<Rightarrow> NotificationType list \<Rightarrow> NotificationState \<Rightarrow> NotificationState" where
  "markAllAsRead err captured st =
     (case err of
        Some e \<Rightarrow> st
      | None \<Rightarrow>
          st\<lparr>notifications := map (\<lambda>n. n\<lparr>is_read := True\<rparr>) captured,
             unreadCount := 0\<rparr>)"

text \<open>
  The events that write the feed's state, as data, and a run of them from a state: the
  answer to the initial query, a live insert, and the store's answer to a \<open>markAsRead(id)\<close>
  or a \<open>markAllAsRead()\<close>, which carries the view captured at its click.
\<close>

datatype feedOp =
    Load "NotificationType list response"
  | RemoteInsert NotificationType
  | MarkRead "PostgrestError option" int "NotificationType list"
  | MarkAllRead "PostgrestError option" "NotificationType list"

fun feedStep :: "feedOp \<Rightarrow> NotificationState \<Rightarrow> NotificationState" where
  "feedStep (Load res) st = fetchNotifications res st"
| "feedStep (RemoteInsert n) st = onNotificationInsert n st"
| "feedStep (MarkRead err i captured) st = markAsRead err i captured st"
| "feedStep (MarkAllRead err captured) st = markAllAsRead err captured st"

fun feedRun :: "feedOp list \<Rightarrow> NotificationState \<Rightarrow> NotificationState" where
  "feedRun [] st = st"
| "feedRun (op # ops) st = feedRun ops (feedStep op st)"

text \<open>The number of unread notifications of the view, and the counter's agreement with it.\<close>

definition unreadInView :: "NotificationState \<Rightarrow> int" where
  "unreadInView st = int (length (filter (\<lambda>n. \<not> is_read n) (notifications st)))"




text \<open>
  The view after the initial load and a sequence of live inserts, and the inserts'
  arrival in creation order: each no older than the head of the view it is put on.
  \<open>instant\<close> reads a \<open>created_at\<close> text as the store orders it.
\<close>

fun arriveInOrder :: "(jsstring \<Rightarrow> int) \<Rightarrow> NotificationType list \<Rightarrow> NotificationType list \<Rightarrow> bool" where
  "arriveInOrder instant [] view = True"
| "arriveInOrder instant (n # ns) view =
     ((case view of [] \<Rightarrow> True | m # ms \<Rightarrow> instant (created_at m) \<le> instant (created_at n))
      \<and> arriveInOrder instant ns (n # view))"

definition descending :: "(jsstring \<Rightarrow> int) \<Rightarrow> NotificationType list \<Rightarrow> bool" where
  "descending instant view = sorted_wrt (\<lambda>a b. instant (created_at b) \<le> instant (created_at a)) view"

section \<open>Notification dispatch\<close>

text \<open>
  \<open>createTaskAssignmentNotification\<close> inserts one row into \<open>notifications\<close> and logs a
  failure of that insert without raising it.  The model is the row it inserts.
\<close>

definition createTaskAssignmentNotification ::
  "int \<Rightarrow> jsstring \<Rightarrow> jsstring \<Rightarrow> jsstring \<Rightarrow> NotificationInsert" where
  \<open>createTaskAssignmentNotification taskId assigneeId taskTitle assignerEmail =
     \<lparr>ins_user_id = assigneeId,
      ins_task_id = taskId,
      ins_message = assignerEmail @ lit '' assigned you a task: "'' @ taskTitle @ lit ''"'',
      ins_is_read = False\<rparr>\<close>

text \<open>\<open>x || fallback\<close> for \<open>x\<close> of type \<open>string | null\<close> or \<open>string | undefined\<close>.\<close>

definition orDefault :: "jsstring option \<Rightarrow> jsstring \<Rightarrow> jsstring" where
  "orDefault x fallback = (case x of None \<Rightarrow> fallback | Some s \<Rightarrow> if s = [] then fallback else s)"

text \<open>
  The block that follows a successful write in both \<open>addTodo\<close> and \<open>updateTodoAssignment\<close>:
  \<open>if (row && row.assigned_to && row.assigned_to !== user!.id)\<close> then dispatch.  The result
  is the list of notifications dispatched, empty or of one element.
\<close>

definition assignmentNotification :: "User \<Rightarrow> Todos option \<Rightarrow> NotificationInsert list" where
  "assignmentNotification user row =
     (case row of
        None \<Rightarrow> []
      | Some r \<Rightarrow>
          (case assigned_to r of
             None \<Rightarrow> []
           | Some assignee \<Rightarrow>
               if assignee \<noteq> [] \<and> assignee \<noteq> auth_id user
               then [createTaskAssignmentNotification (todo_id r) assignee
                       (orDefault (task r) (lit ''Untitled task''))
                       (orDefault (auth_email user) (lit ''A user''))]
               else []))"


section \<open>TodoList: creating and reassigning tasks\<close>

text \<open>The part of the component's state that the two operations read and write.\<close>

record TodoListState =
  todos :: "Todos list"
  newTaskText :: jsstring
  newTaskAssignedTo :: "jsstring option"
  newTaskDueDate :: "jsstring option"
  errorText :: jsstring

text \<open>
  What a run of an operation leaves behind: the state, the calls made to the \<open>todos\<close> table
  in order, the notifications dispatched, the row the store returned (\<open>todoResult\<close>,
  \<open>data\<close>), and the error that reached the \<open>catch\<close> block.  Every \<open>throw\<close> of the two
  operations is inside their \<open>try\<close>, so no error leaves them.
\<close>

datatype storeCall = InsertTodo TodoInsert | UpdateAssignee int "jsstring option"

record run =
  finalState :: TodoListState
  storeCalls :: "storeCall list"
  dispatched :: "NotificationInsert list"
  todoResult :: "Todos option"
  caughtError :: "PostgrestError option"

text \<open>The end of \<open>addTodo\<close>'s \<open>try\<close> block (dispatch, then reset of the form) and its
  \<open>catch\<close> block.\<close>

definition addTodoFinish :: "User \<Rightarrow> storeCall list \<Rightarrow> Todos option \<Rightarrow> TodoListState \<Rightarrow> run" where
  "addTodoFinish user cs result st =
     \<lparr>finalState = st\<lparr>newTaskText := [], newTaskAssignedTo := None, newTaskDueDate := None\<rparr>,
      storeCalls = cs,
      dispatched = assignmentNotification user result,
      todoResult = result,
      caughtError = None\<rparr>"

definition addTodoCatch :: "storeCall list \<Rightarrow> PostgrestError \<Rightarrow> TodoListState \<Rightarrow> run" where
  "addTodoCatch cs e st =
     \<lparr>finalState = st\<lparr>errorText := message e\<rparr>,
      storeCalls = cs,
      dispatched = [],
      todoResult = None,
      caughtError = Some e\<rparr>"

text \<open>
  \<open>addTodo(taskText)\<close>.  \<open>storeInsert\<close> is the store's answer to
  \<open>from('todos').insert(row).select().single()\<close>; \<open>user\<close> is \<open>user!\<close>.
\<close>

definition addTodo ::
  "(TodoInsert \<Rightarrow> Todos response) \<Rightarrow> User \<Rightarrow> TodoListState \<Rightarrow> jsstring \<Rightarrow> run" where
  "addTodo storeInsert user st taskText =
     (let task = trim taskText in
      if task = [] then
        \<lparr>finalState = st, storeCalls = [], dispatched = [], todoResult = None, caughtError = None\<rparr>
      else
        let newTodo = \<lparr>new_task = task, new_user_id = auth_id user,
                       new_assigned_to = newTaskAssignedTo st, new_due_date = newTaskDueDate st,
                       new_created_by = auth_id user\<rparr>
        in
          if truthy (newTaskAssignedTo st) then
            (let res = storeInsert newTodo in
             case error res of
               Some e \<Rightarrow>
                 if includes_str (message e) (lit ''violates foreign key constraint'') then
                   (let fallbackTodo = newTodo\<lparr>new_assigned_to := None\<rparr>;
                        fallbackResult = storeInsert fallbackTodo
                    in
                      case error fallbackResult of
                        Some e2 \<Rightarrow>
                          addTodoCatch [InsertTodo newTodo, InsertTodo fallbackTodo] e2 st
                      | None \<Rightarrow>
                          addTodoFinish user [InsertTodo newTodo, InsertTodo fallbackTodo]
                            (data fallbackResult)
                            (st\<lparr>errorText := lit ''Could not assign task: user not found in database''\<rparr>))
                 else addTodoCatch [InsertTodo newTodo] e st
             | None \<Rightarrow> addTodoFinish user [InsertTodo newTodo] (data res) st)
          else
            (let res = storeInsert newTodo in
             case error res of
               Some e \<Rightarrow> addTodoCatch [InsertTodo newTodo] e st
             | None \<Rightarrow> addTodoFinish user [InsertTodo newTodo] (data res) st))"

text \<open>
  \<open>updateTodoAssignment(todo, assignedTo)\<close>.  \<open>storeUpdate\<close> is the store's answer to
  \<open>from('todos').update({assigned_to}).eq('id', id).select().single()\<close>.  A foreign key
  violation sets the error text and returns; any other error is thrown and caught; on
  success the dispatch block runs and the local list is patched.
\<close>

definition updateTodoAssignment ::
  "(int \<Rightarrow> jsstring option \<Rightarrow> Todos response) \<Rightarrow> User \<Rightarrow> TodoListState \<Rightarrow> Todos \<Rightarrow> jsstring option
     \<Rightarrow> run" where
  "updateTodoAssignment storeUpdate user st todo assignedTo =
     (let res = storeUpdate (todo_id todo) assignedTo;
          cs = [UpdateAssignee (todo_id todo) assignedTo]
      in
        case error res of
          Some e \<Rightarrow>
            if includes_str (message e) (lit ''violates foreign key constraint'') then
              \<lparr>finalState = st\<lparr>errorText := lit ''Could not assign task: user not found in database''\<rparr>,
               storeCalls = cs, dispatched = [], todoResult = None, caughtError = None\<rparr>
            else
              \<lparr>finalState = st\<lparr>errorText := message e\<rparr>,
               storeCalls = cs, dispatched = [], todoResult = None, caughtError = Some e\<rparr>
        | None \<Rightarrow>
            \<lparr>finalState =
               st\<lparr>todos := map (\<lambda>t. if todo_id t = todo_id todo then t\<lparr>assigned_to := assignedTo\<rparr> else t)
                               (todos st)\<rparr>,
             storeCalls = cs,
             dispatched = assignmentNotification user (data res),
             todoResult = data res,
             caughtError = None\<rparr>)"

section \<open>Concrete users, rows and stores\<close>

text \<open>The inputs at which the properties below are evaluated.\<close>

definition alice :: User where
  "alice = \<lparr>auth_id = lit ''alice'', auth_email = Some (lit ''alice@x.io'')\<rparr>"

text \<open>The row a store returns for an accepted insert, under the id it assigns.\<close>

definition storedRow :: "int \<Rightarrow> TodoInsert \<Rightarrow> Todos" where
  "storedRow i row =
     \<lparr>todo_id = i, inserted_at = lit ''2024-01-02T10:00:00+00:00'', is_complete = Some False,
      task = Some (new_task row), user_id = new_user_id row, assigned_to = new_assigned_to row,
      due_date = new_due_date row, created_by = new_created_by row\<rparr>"

text \<open>A store in which \<open>ghost-user\<close> is no user: a row assigned to it violates the foreign key
  of \<open>assigned_to\<close>; every other row is accepted under id 7.\<close>

definition ghostStore :: "TodoInsert \<Rightarrow> Todos response" where
  \<open>ghostStore row =
     (if new_assigned_to row = Some (lit ''ghost-user'')
      then \<lparr>data = None,
            error = Some \<lparr>message = lit ''insert or update on table "todos" violates foreign key constraint "todos_assigned_to_fkey"''\<rparr>\<rparr>
      else \<lparr>data = Some (storedRow 7 row), error = None\<rparr>)\<close>

text \<open>A store in which the acting user is no user any more: every row violates the foreign
  key of \<open>user_id\<close>, with or without an assignee.\<close>

definition orphanStore :: "TodoInsert \<Rightarrow> Todos response" where
  \<open>orphanStore row =
     \<lparr>data = None,
      error = Some \<lparr>message = lit ''insert or update on table "todos" violates foreign key constraint "todos_user_id_fkey"''\<rparr>\<rparr>\<close>

text \<open>A store that enforces the schema's check on \<open>task\<close> (at least 4 characters) and accepts
  every other row under id 7.\<close>

definition checkingStore :: "TodoInsert \<Rightarrow> Todos response" where
  \<open>checkingStore row =
     (if length (new_task row) < 4
      then \<lparr>data = None,
            error = Some \<lparr>message = lit ''new row for relation "todos" violates check constraint "todos_task_check"''\<rparr>\<rparr>
      else \<lparr>data = Some (storedRow 7 row), error = None\<rparr>)\<close>

text \<open>A store holding one row, which accepts every update of the assignee and returns the
  updated row.\<close>

definition acceptingUpdate :: "Todos \<Rightarrow> int \<Rightarrow> jsstring option \<Rightarrow> Todos response" where
  "acceptingUpdate row i assignedTo = \<lparr>data = Some (row\<lparr>assigned_to := assignedTo\<rparr>), error = None\<rparr>"

definition emptyForm :: TodoListState where
  "emptyForm = \<lparr>todos = [], newTaskText = [], newTaskAssignedTo = None, newTaskDueDate = None,
                errorText = []\<rparr>"

text \<open>Alice's task number 1, due on the first of January 2024, with a given assignee and
  completion flag.\<close>

definition task1 :: "jsstring option \<Rightarrow> bool option \<Rightarrow> Todos" where
  "task1 assignee complete =
     \<lparr>todo_id = 1, inserted_at = lit ''2023-12-30T09:00:00+00:00'', is_complete = complete,
      task = Some (lit ''Buy milk''), user_id = lit ''alice'', assigned_to = assignee,
      due_date = Some (lit ''2024-01-01T00:00:00.000Z''), created_by = lit ''alice''\<rparr>"

text \<open>A \<open>Date\<close> parser that knows the one text above (every other text is an Invalid Date),
  and the start of the day in a browser whose time zone is UTC.\<close>

definition exampleNewDate :: "jsstring \<Rightarrow> int option" where
  "exampleNewDate text =
     (if text = lit ''2024-01-01T00:00:00.000Z'' then Some 1704067200000 else None)"

definition utcSetHours0 :: "int \<Rightarrow> int" where
  "utcSetHours0 t = t - t mod 86400000"

text \<open>Bob's notification number \<open>i\<close>, created at second \<open>i\<close> of a fixed minute, and a reading of
  such texts as instants: the decimal digits of the text, in order.\<close>

definition digitsOf :: "nat \<Rightarrow> jsstring" where
  "digitsOf k = [of_nat (48 + k div 10), of_nat (48 + k mod 10)]"

definition notification :: "nat \<Rightarrow> bool \<Rightarrow> NotificationType" where
  \<open>notification i rd =
     \<lparr>notif_id = int i, notif_user_id = lit ''bob'', notif_task_id = 1,
      notif_message = lit ''alice@x.io assigned you a task: "Buy milk"'', is_read = rd,
      created_at = lit ''2024-01-02T10:00:'' @ digitsOf i @ lit ''Z''\<rparr>\<close>

definition digitsInstant :: "jsstring \<Rightarrow> int" where
  "digitsInstant text =
     foldl (\<lambda>acc c. if 48 \<le> c \<and> c \<le> 57 then 10 * acc + (uint c - 48) else acc) 0 text"


section \<open>Properties of the user selector\<close>

lemma fetchUsers_ok_users:
  "users (fetchUsers cur (FetchOk us) st) = filter (\<lambda>user. profile_id user \<noteq> cur) us"
proof -
  have "map (\<lambda>user. \<lparr>profile_id = profile_id user, profile_email = profile_email user,
                      profile_name = profile_name user\<rparr>) xs = xs" for xs :: "UserProfile list"
    by (induction xs) simp_all
  then show ?thesis by (simp add: fetchUsers_def)
qed

lemma fetchUsers_failed_users:
  "users (fetchUsers cur FetchFailed st) = users st"
  by (simp add: fetchUsers_def)

text \<open>
  Claim C10.  Whatever the directory answers, the candidates offered after \<open>fetchUsers\<close> do not
  contain the current user, and no option of the select hands the current user's id to
  \<open>onSelect\<close>.  The list held before the fetch matters only when the fetch fails and the
  list is kept; at mount it is empty.
\<close>

theorem userSelector_excludes_current_user:
  assumes "\<forall>u \<in> set (users st). profile_id u \<noteq> cur"
  shows "(\<forall>u \<in> set (users (fetchUsers cur response st)). profile_id u \<noteq> cur) \<and>
         (\<forall>v \<in> set (optionValues (fetchUsers cur response st)). onChange v \<noteq> Some cur)"
proof -
  have excl: "\<forall>u \<in> set (users (fetchUsers cur response st)). profile_id u \<noteq> cur"
  proof (cases response)
    case FetchFailed
    with assms show ?thesis by (simp add: fetchUsers_failed_users)
  next
    case (FetchOk us)
    then show ?thesis by (simp add: fetchUsers_ok_users)
  qed
  then have "\<forall>v \<in> set (optionValues (fetchUsers cur response st)). onChange v \<noteq> Some cur"
    by (auto simp: optionValues_def onChange_def)
  with excl show ?thesis by blast
qed

theorem userSelector_excludes_current_user_witness:
  "users userSelectorInit = [] \<and>
   lit ''u1'' \<notin> set (map profile_id (users (fetchUsers (lit ''u1'')
     (FetchOk [\<lparr>profile_id = lit ''u1'', profile_email = lit ''a@x.io'', profile_name = None\<rparr>,
               \<lparr>profile_id = lit ''u2'', profile_email = lit ''b@x.io'', profile_name = Some (lit ''Bo'')\<rparr>])
     userSelectorInit))) \<and>
   Some (lit ''u1'') \<notin> set (map onChange (optionValues (fetchUsers (lit ''u1'')
     (FetchOk [\<lparr>profile_id = lit ''u1'', profile_email = lit ''a@x.io'', profile_name = None\<rparr>,
               \<lparr>profile_id = lit ''u2'', profile_email = lit ''b@x.io'', profile_name = Some (lit ''Bo'')\<rparr>])
     userSelectorInit)))"
proof -
  have e: "users userSelectorInit = []"
    by (simp add: userSelectorInit_def)
  then have h: "\<forall>u \<in> set (users userSelectorInit). profile_id u \<noteq> lit ''u1''"
    by simp
  let ?r = "FetchOk [\<lparr>profile_id = lit ''u1'', profile_email = lit ''a@x.io'', profile_name = None\<rparr>,
               \<lparr>profile_id = lit ''u2'', profile_email = lit ''b@x.io'', profile_name = Some (lit ''Bo'')\<rparr>]"
  from e userSelector_excludes_current_user [OF h, where response = ?r] show ?thesis
    by (auto simp: image_iff)
qed

section \<open>Properties of the change feed\<close>








section \<open>Properties of the filter effect\<close>

text \<open>
  Claim C8.  For every list of tasks, every reference time and every behaviour of the
  runtime's \<open>Date\<close>, no task is in both the \<open>overdue\<close> and the \<open>dueToday\<close> view.
\<close>

theorem overdue_dueToday_disjoint:
  "set (filteredTodos newDate setHours0 user ts overdue now) \<inter>
   set (filteredTodos newDate setHours0 user ts dueToday now) = {}"
  by (auto simp: filteredTodos_def Let_def overdueTodo_def dueTodayTodo_def
           split: option.splits if_splits)

text \<open>
  Claim C9.  The \<open>overdue\<close> view holds no task without a due date and no completed task.
\<close>

theorem overdue_excludes_undated_and_completed:
  "\<forall>todo \<in> set (filteredTodos newDate setHours0 user ts overdue now).
     due_date todo \<noteq> None \<and> is_complete todo \<noteq> Some True"
  by (auto simp: filteredTodos_def Let_def overdueTodo_def split: option.splits if_splits)

text \<open>At noon of the second of January 2024 (UTC), task 1 is overdue.\<close>

theorem overdue_excludes_undated_and_completed_witness:
  "filteredTodos exampleNewDate utcSetHours0 (Some alice) [task1 None None] overdue 1704196800000
     = [task1 None None] \<and>
   due_date (task1 None None) \<noteq> None \<and> is_complete (task1 None None) \<noteq> Some True"
proof -
  have v: "filteredTodos exampleNewDate utcSetHours0 (Some alice) [task1 None None] overdue 1704196800000
     = [task1 None None]"
    by (simp add: filteredTodos_def overdueTodo_def dayOf_def exampleNewDate_def utcSetHours0_def
          task1_def lit_def)
  from overdue_excludes_undated_and_completed
         [of exampleNewDate utcSetHours0 "Some alice" "[task1 None None]" 1704196800000]
  show ?thesis unfolding v by simp
qed

section \<open>Properties of the notification feed\<close>


lemma unread_after_mark_all:
  "filter (\<lambda>n. \<not> is_read n) (map (\<lambda>n. n\<lparr>is_read := True\<rparr>) ns) = []"
  by (induction ns) simp_all









text \<open>
  Each of the other conditions is needed as well.  A button pressed twice before the view
  is drawn anew answers twice from the same captured view; an insert that arrives read
  still adds one; and a \<open>markAsRead\<close> of an entry that is read still takes one off.
\<close>

lemma double_markAsRead_diverges:
  "unreadCount (feedRun [Load \<lparr>data = Some [notification 2 False, notification 1 False], error = None\<rparr>,
                         MarkRead None 1 [notification 2 False, notification 1 False],
                         MarkRead None 1 [notification 2 False, notification 1 False]]
       notificationInit) = 0 \<and>
   unreadInView (feedRun [Load \<lparr>data = Some [notification 2 False, notification 1 False], error = None\<rparr>,
                          MarkRead None 1 [notification 2 False, notification 1 False],
                          MarkRead None 1 [notification 2 False, notification 1 False]]
       notificationInit) = 1"
  by (simp add: fetchNotifications_def markAsRead_def unreadInView_def notification_def notificationInit_def)

lemma read_insert_diverges:
  "unreadCount (feedRun [Load \<lparr>data = Some [notification 1 True], error = None\<rparr>,
                         RemoteInsert (notification 2 True)] notificationInit) = 1 \<and>
   unreadInView (feedRun [Load \<lparr>data = Some [notification 1 True], error = None\<rparr>,
                          RemoteInsert (notification 2 True)] notificationInit) = 0"
  by (simp add: fetchNotifications_def onNotificationInsert_def unreadInView_def notification_def
        notificationInit_def)

lemma markAsRead_of_read_entry_diverges:
  "unreadCount (feedRun [Load \<lparr>data = Some [notification 2 False, notification 1 True], error = None\<rparr>,
                         MarkRead None 1 [notification 2 False, notification 1 True]]
       notificationInit) = 0 \<and>
   unreadInView (feedRun [Load \<lparr>data = Some [notification 2 False, notification 1 True], error = None\<rparr>,
                          MarkRead None 1 [notification 2 False, notification 1 True]]
       notificationInit) = 1"
  by (simp add: fetchNotifications_def markAsRead_def unreadInView_def notification_def notificationInit_def)

text \<open>
  Claim C5.  When the store accepts the update, \<open>markAllAsRead\<close> leaves the counter at 0
  and every notification of the view read: the view is the one captured at the click with
  every flag set, the entries otherwise as they were.  When the store rejects the update,
  the state is unchanged.  Both hold whatever arrived while the update was pending.
\<close>

theorem markAllAsRead_atomic:
  "unreadCount (markAllAsRead None captured st) = 0 \<and>
   list_all is_read (notifications (markAllAsRead None captured st)) \<and>
   unreadInView (markAllAsRead None captured st) = 0 \<and>
   notifications (markAllAsRead None captured st) = map (\<lambda>n. n\<lparr>is_read := True\<rparr>) captured \<and>
   markAllAsRead (Some e) captured st = st"
  by (simp add: markAllAsRead_def unreadInView_def unread_after_mark_all list_all_iff)

lemma feedRun_inserts:
  "notifications (feedRun (map RemoteInsert ns) st) = rev ns @ notifications st"
  by (induction ns arbitrary: st) (simp_all add: onNotificationInsert_def)

lemma descending_Cons:
  assumes "descending instant view"
    and "case view of [] \<Rightarrow> True | m # ms \<Rightarrow> instant (created_at m) \<le> instant (created_at n)"
  shows "descending instant (n # view)"
proof (cases view)
  case Nil
  then show ?thesis by (simp add: descending_def)
next
  case (Cons m ms)
  with assms have le: "instant (created_at m) \<le> instant (created_at n)" by simp
  from assms(1) Cons have "\<forall>x \<in> set ms. instant (created_at x) \<le> instant (created_at m)"
    by (simp add: descending_def)
  with le have "\<forall>x \<in> set (m # ms). instant (created_at x) \<le> instant (created_at n)"
    by auto
  with assms(1) Cons show ?thesis by (simp add: descending_def)
qed

lemma descending_inserts:
  "descending instant view \<Longrightarrow> arriveInOrder instant ns view \<Longrightarrow> descending instant (rev ns @ view)"
proof (induction ns arbitrary: view)
  case Nil
  then show ?case by simp
next
  case (Cons n ns)
  from Cons.prems have "descending instant (n # view)"
    by (simp add: descending_Cons)
  moreover from Cons.prems have "arriveInOrder instant ns (n # view)"
    by simp
  ultimately have "descending instant (rev ns @ (n # view))"
    by (rule Cons.IH)
  then show ?case by simp
qed

text \<open>
  Claim C7, as the code has it.  The load takes the store's answer to a query that orders
  by \<open>created_at\<close> descending and limits to 20; every live insert is put in front of the
  view, which is neither sorted nor cut afterwards.  So after a load of at most 20 rows in
  descending order and \<open>m\<close> live inserts the view is the inserts, last first, followed by
  the loaded rows: at most \<open>20 + m\<close> entries, in descending order when the inserts arrive
  in creation order, none older than the head of the view.
\<close>

theorem view_after_load_and_inserts:
  assumes "error res = None" and "data res = Some rows"
    and "length rows \<le> 20" and "descending instant rows"
    and "arriveInOrder instant ns rows"
  shows "notifications (feedRun (Load res # map RemoteInsert ns) st) = rev ns @ rows \<and>
         descending instant (notifications (feedRun (Load res # map RemoteInsert ns) st)) \<and>
         length (notifications (feedRun (Load res # map RemoteInsert ns) st)) \<le> 20 + length ns"
proof -
  from assms(1,2) have "notifications (fetchNotifications res st) = rows"
    by (simp add: fetchNotifications_def)
  then have v: "notifications (feedRun (Load res # map RemoteInsert ns) st) = rev ns @ rows"
    by (simp add: feedRun_inserts)
  from assms(4,5) have "descending instant (rev ns @ rows)"
    by (rule descending_inserts)
  with v assms(3) show ?thesis by simp
qed

theorem view_after_load_and_inserts_witness:
  "error \<lparr>data = Some [notification 2 False, notification 1 True], error = None\<rparr> = None \<and>
   data \<lparr>data = Some [notification 2 False, notification 1 True], error = None\<rparr>
     = Some [notification 2 False, notification 1 True] \<and>
   length [notification 2 False, notification 1 True] \<le> 20 \<and>
   descending digitsInstant [notification 2 False, notification 1 True] \<and>
   arriveInOrder digitsInstant [notification 3 False, notification 4 False]
     [notification 2 False, notification 1 True] \<and>
   notifications (feedRun (Load \<lparr>data = Some [notification 2 False, notification 1 True], error = None\<rparr>
       # map RemoteInsert [notification 3 False, notification 4 False]) notificationInit)
     = rev [notification 3 False, notification 4 False] @ [notification 2 False, notification 1 True] \<and>
   descending digitsInstant (notifications (feedRun
       (Load \<lparr>data = Some [notification 2 False, notification 1 True], error = None\<rparr>
       # map RemoteInsert [notification 3 False, notification 4 False]) notificationInit))"
proof -
  let ?res = "\<lparr>data = Some [notification 2 False, notification 1 True], error = None\<rparr>"
  let ?rows = "[notification 2 False, notification 1 True]"
  let ?ns = "[notification 3 False, notification 4 False]"
  have a: "error ?res = None" by simp
  have b: "data ?res = Some ?rows" by simp
  have c: "length ?rows \<le> 20" by simp
  have d: "descending digitsInstant ?rows"
    by (simp add: descending_def digitsInstant_def notification_def digitsOf_def lit_def)
  have e: "arriveInOrder digitsInstant ?ns ?rows"
    by (simp add: digitsInstant_def notification_def digitsOf_def lit_def)
  from a b c d e view_after_load_and_inserts [OF a b c d e, of notificationInit] show ?thesis
    by blast
qed

text \<open>
  The claim as written fails: the load returns 20 notifications, the 21st arrives on the
  live feed, and the view holds 21 entries.
\<close>

theorem view_exceeds_20_after_insert:
  "length (notifications (feedRun
      [Load \<lparr>data = Some (map (\<lambda>i. notification i False) (rev [1..<21])), error = None\<rparr>,
       RemoteInsert (notification 21 False)] notificationInit)) = 21"
  by (simp add: fetchNotifications_def onNotificationInsert_def)

text \<open>An insert that is older than the head of the view is put in front all the same.\<close>

lemma late_insert_breaks_order:
  "\<not> descending digitsInstant (notifications (feedRun
      [Load \<lparr>data = Some [notification 2 False], error = None\<rparr>,
       RemoteInsert (notification 1 False)] notificationInit))"
  by (simp add: fetchNotifications_def onNotificationInsert_def descending_def digitsInstant_def
        notification_def digitsOf_def lit_def)

section \<open>Properties of task creation\<close>

text \<open>
  The insert with the requested assignee is rejected with a message that contains
  \<open>violates foreign key constraint\<close>.  When the store rejects the second insert too,
  \<open>addTodo\<close> throws that error into its own \<open>catch\<close>: the message becomes the error text
  and nothing was created or dispatched.  When the store accepts it, the returned row is
  the result and the error text is the warning.
\<close>

lemma addTodo_fallback_rejected:
  assumes "trim taskText \<noteq> []"
    and "truthy (newTaskAssignedTo st)"
    and "newTodo = \<lparr>new_task = trim taskText, new_user_id = auth_id user,
                     new_assigned_to = newTaskAssignedTo st, new_due_date = newTaskDueDate st,
                     new_created_by = auth_id user\<rparr>"
    and "error (storeInsert newTodo) = Some e"
    and "includes_str (message e) (lit ''violates foreign key constraint'')"
    and "error (storeInsert (newTodo\<lparr>new_assigned_to := None\<rparr>)) = Some e2"
  shows "addTodo storeInsert user st taskText
           = \<lparr>finalState = st\<lparr>errorText := message e2\<rparr>,
              storeCalls = [InsertTodo newTodo, InsertTodo (newTodo\<lparr>new_assigned_to := None\<rparr>)],
              dispatched = [], todoResult = None, caughtError = Some e2\<rparr>"
  using assms by (simp add: addTodo_def Let_def addTodoCatch_def)

lemma addTodo_fallback_accepted:
  assumes "trim taskText \<noteq> []"
    and "truthy (newTaskAssignedTo st)"
    and "newTodo = \<lparr>new_task = trim taskText, new_user_id = auth_id user,
                     new_assigned_to = newTaskAssignedTo st, new_due_date = newTaskDueDate st,
                     new_created_by = auth_id user\<rparr>"
    and "error (storeInsert newTodo) = Some e"
    and "includes_str (message e) (lit ''violates foreign key constraint'')"
    and "storeInsert (newTodo\<lparr>new_assigned_to := None\<rparr>) = \<lparr>data = Some row, error = None\<rparr>"
  shows "addTodo storeInsert user st taskText
           = addTodoFinish user [InsertTodo newTodo, InsertTodo (newTodo\<lparr>new_assigned_to := None\<rparr>)]
               (Some row) (st\<lparr>errorText := lit ''Could not assign task: user not found in database''\<rparr>)"
  using assms by (simp add: addTodo_def Let_def)

lemma addTodo_fallback_calls:
  assumes "trim taskText \<noteq> []"
    and "truthy (newTaskAssignedTo st)"
    and "newTodo = \<lparr>new_task = trim taskText, new_user_id = auth_id user,
                     new_assigned_to = newTaskAssignedTo st, new_due_date = newTaskDueDate st,
                     new_created_by = auth_id user\<rparr>"
    and "error (storeInsert newTodo) = Some e"
    and "includes_str (message e) (lit ''violates foreign key constraint'')"
  shows "storeCalls (addTodo storeInsert user st taskText)
           = [InsertTodo newTodo, InsertTodo (newTodo\<lparr>new_assigned_to := None\<rparr>)]"
  using assms
  by (simp add: addTodo_def Let_def addTodoCatch_def addTodoFinish_def split: option.splits)

text \<open>
  Claim C3, as the code has it.  The form names an assignee and the store rejects the
  insert with a message that contains \<open>violates foreign key constraint\<close>.  Then \<open>addTodo\<close>
  makes exactly two inserts, the second with \<open>assigned_to: null\<close>, and no error leaves it.
  When the store accepts the second insert, the returned row is the result, the error text
  is the warning, nothing was thrown, and no notification is dispatched for a returned row
  without assignee.  When the store rejects the second insert, no task is created, the
  error is caught, its message is the error text, and no notification is dispatched.
\<close>

theorem addTodo_foreign_key_fallback:
  assumes "trim taskText \<noteq> []"
    and "truthy (newTaskAssignedTo st)"
    and "newTodo = \<lparr>new_task = trim taskText, new_user_id = auth_id user,
                     new_assigned_to = newTaskAssignedTo st, new_due_date = newTaskDueDate st,
                     new_created_by = auth_id user\<rparr>"
    and "error (storeInsert newTodo) = Some e"
    and "includes_str (message e) (lit ''violates foreign key constraint'')"
  shows "storeCalls (addTodo storeInsert user st taskText)
           = [InsertTodo newTodo, InsertTodo (newTodo\<lparr>new_assigned_to := None\<rparr>)] \<and>
         (storeInsert (newTodo\<lparr>new_assigned_to := None\<rparr>) = \<lparr>data = Some row, error = None\<rparr> \<longrightarrow>
            todoResult (addTodo storeInsert user st taskText) = Some row \<and>
            errorText (finalState (addTodo storeInsert user st taskText))
              = lit ''Could not assign task: user not found in database'' \<and>
            caughtError (addTodo storeInsert user st taskText) = None \<and>
            (assigned_to row = None \<longrightarrow> dispatched (addTodo storeInsert user st taskText) = [])) \<and>
         (error (storeInsert (newTodo\<lparr>new_assigned_to := None\<rparr>)) = Some e2 \<longrightarrow>
            todoResult (addTodo storeInsert user st taskText) = None \<and>
            errorText (finalState (addTodo storeInsert user st taskText)) = message e2 \<and>
            caughtError (addTodo storeInsert user st taskText) = Some e2 \<and>
            dispatched (addTodo storeInsert user st taskText) = [])"
proof -
  have calls: "storeCalls (addTodo storeInsert user st taskText)
      = [InsertTodo newTodo, InsertTodo (newTodo\<lparr>new_assigned_to := None\<rparr>)]"
    using assms by (rule addTodo_fallback_calls)
  have accepted: "todoResult (addTodo storeInsert user st taskText) = Some row \<and>
      errorText (finalState (addTodo storeInsert user st taskText))
        = lit ''Could not assign task: user not found in database'' \<and>
      caughtError (addTodo storeInsert user st taskText) = None \<and>
      (assigned_to row = None \<longrightarrow> dispatched (addTodo storeInsert user st taskText) = [])"
    if ok: "storeInsert (newTodo\<lparr>new_assigned_to := None\<rparr>) = \<lparr>data = Some row, error = None\<rparr>"
  proof -
    have "addTodo storeInsert user st taskText
        = addTodoFinish user [InsertTodo newTodo, InsertTodo (newTodo\<lparr>new_assigned_to := None\<rparr>)]
            (Some row) (st\<lparr>errorText := lit ''Could not assign task: user not found in database''\<rparr>)"
      using assms ok by (rule addTodo_fallback_accepted)
    then show ?thesis
      by (simp add: addTodoFinish_def assignmentNotification_def)
  qed
  have rejected: "todoResult (addTodo storeInsert user st taskText) = None \<and>
      errorText (finalState (addTodo storeInsert user st taskText)) = message e2 \<and>
      caughtError (addTodo storeInsert user st taskText) = Some e2 \<and>
      dispatched (addTodo storeInsert user st taskText) = []"
    if no: "error (storeInsert (newTodo\<lparr>new_assigned_to := None\<rparr>)) = Some e2"
  proof -
    have "addTodo storeInsert user st taskText
        = \<lparr>finalState = st\<lparr>errorText := message e2\<rparr>,
           storeCalls = [InsertTodo newTodo, InsertTodo (newTodo\<lparr>new_assigned_to := None\<rparr>)],
           dispatched = [], todoResult = None, caughtError = Some e2\<rparr>"
      using assms no by (rule addTodo_fallback_rejected)
    then show ?thesis by simp
  qed
  from calls accepted rejected show ?thesis by blast
qed

text \<open>The store without \<open>ghost-user\<close> accepts the second insert; the store without the acting
  user rejects it.\<close>

theorem addTodo_foreign_key_fallback_witness:
  "trim (lit '' Buy milk '') \<noteq> [] \<and>
   truthy (newTaskAssignedTo (emptyForm\<lparr>newTaskAssignedTo := Some (lit ''ghost-user'')\<rparr>)) \<and>
   error (ghostStore \<lparr>new_task = lit ''Buy milk'', new_user_id = lit ''alice'',
                      new_assigned_to = Some (lit ''ghost-user''), new_due_date = None,
                      new_created_by = lit ''alice''\<rparr>) \<noteq> None \<and>
   error (ghostStore \<lparr>new_task = lit ''Buy milk'', new_user_id = lit ''alice'',
                      new_assigned_to = None, new_due_date = None,
                      new_created_by = lit ''alice''\<rparr>) = None \<and>
   storeCalls (addTodo ghostStore alice (emptyForm\<lparr>newTaskAssignedTo := Some (lit ''ghost-user'')\<rparr>)
       (lit '' Buy milk ''))
     = [InsertTodo \<lparr>new_task = lit ''Buy milk'', new_user_id = lit ''alice'',
                    new_assigned_to = Some (lit ''ghost-user''), new_due_date = None,
                    new_created_by = lit ''alice''\<rparr>,
        InsertTodo \<lparr>new_task = lit ''Buy milk'', new_user_id = lit ''alice'',
                    new_assigned_to = None, new_due_date = None,
                    new_created_by = lit ''alice''\<rparr>] \<and>
   map_option assigned_to (todoResult (addTodo ghostStore alice
       (emptyForm\<lparr>newTaskAssignedTo := Some (lit ''ghost-user'')\<rparr>) (lit '' Buy milk ''))) = Some None \<and>
   errorText (finalState (addTodo ghostStore alice
       (emptyForm\<lparr>newTaskAssignedTo := Some (lit ''ghost-user'')\<rparr>) (lit '' Buy milk '')))
     = lit ''Could not assign task: user not found in database'' \<and>
   caughtError (addTodo ghostStore alice (emptyForm\<lparr>newTaskAssignedTo := Some (lit ''ghost-user'')\<rparr>)
       (lit '' Buy milk '')) = None \<and>
   dispatched (addTodo ghostStore alice (emptyForm\<lparr>newTaskAssignedTo := Some (lit ''ghost-user'')\<rparr>)
       (lit '' Buy milk '')) = [] \<and>
   error (orphanStore \<lparr>new_task = lit ''Buy milk'', new_user_id = lit ''alice'',
                       new_assigned_to = None, new_due_date = None,
                       new_created_by = lit ''alice''\<rparr>) \<noteq> None \<and>
   caughtError (addTodo orphanStore alice (emptyForm\<lparr>newTaskAssignedTo := Some (lit ''ghost-user'')\<rparr>)
       (lit '' Buy milk ''))
     = error (orphanStore \<lparr>new_task = lit ''Buy milk'', new_user_id = lit ''alice'',
                            new_assigned_to = None, new_due_date = None,
                            new_created_by = lit ''alice''\<rparr>) \<and>
   dispatched (addTodo orphanStore alice (emptyForm\<lparr>newTaskAssignedTo := Some (lit ''ghost-user'')\<rparr>)
       (lit '' Buy milk '')) = []"
proof -
  let ?st = "emptyForm\<lparr>newTaskAssignedTo := Some (lit ''ghost-user'')\<rparr>"
  let ?new = "\<lparr>new_task = lit ''Buy milk'', new_user_id = lit ''alice'',
                new_assigned_to = Some (lit ''ghost-user''), new_due_date = None,
                new_created_by = lit ''alice''\<rparr>"
  let ?e = "\<lparr>message = lit ''insert or update on table \"todos\" violates foreign key constraint \"todos_assigned_to_fkey\"''\<rparr>"
  let ?o = "\<lparr>message = lit ''insert or update on table \"todos\" violates foreign key constraint \"todos_user_id_fkey\"''\<rparr>"
  let ?row = "storedRow 7 (?new\<lparr>new_assigned_to := None\<rparr>)"
  have t: "trim (lit '' Buy milk '') = lit ''Buy milk''"
    by (simp add: trim_def isWhiteSpace_def lit_def)
  have a: "trim (lit '' Buy milk '') \<noteq> []"
    unfolding t by (simp add: lit_def)
  have b: "truthy (newTaskAssignedTo ?st)"
    by (simp add: lit_def)
  have c: "?new = \<lparr>new_task = trim (lit '' Buy milk ''), new_user_id = auth_id alice,
                     new_assigned_to = newTaskAssignedTo ?st, new_due_date = newTaskDueDate ?st,
                     new_created_by = auth_id alice\<rparr>"
    unfolding t by (simp add: alice_def emptyForm_def)
  have d: "error (ghostStore ?new) = Some ?e"
    by (simp add: ghostStore_def)
  have e: "includes_str (message ?e) (lit ''violates foreign key constraint'')"
    by (simp add: lit_def)
  have f: "ghostStore (?new\<lparr>new_assigned_to := None\<rparr>) = \<lparr>data = Some ?row, error = None\<rparr>"
    by (simp add: ghostStore_def)
  have g: "assigned_to ?row = None"
    by (simp add: storedRow_def)
  have d': "error (orphanStore ?new) = Some ?o"
    by (simp add: orphanStore_def)
  have e': "includes_str (message ?o) (lit ''violates foreign key constraint'')"
    by (simp add: lit_def)
  have f': "error (orphanStore (?new\<lparr>new_assigned_to := None\<rparr>)) = Some ?o"
    by (simp add: orphanStore_def)
  from addTodo_foreign_key_fallback
         [where storeInsert = ghostStore and newTodo = ?new and e = ?e and row = ?row
            and user = alice and st = ?st and taskText = "lit '' Buy milk ''", OF a b c d e] f g
  have accepted: "storeCalls (addTodo ghostStore alice ?st (lit '' Buy milk ''))
        = [InsertTodo ?new, InsertTodo (?new\<lparr>new_assigned_to := None\<rparr>)] \<and>
      todoResult (addTodo ghostStore alice ?st (lit '' Buy milk '')) = Some ?row \<and>
      errorText (finalState (addTodo ghostStore alice ?st (lit '' Buy milk '')))
        = lit ''Could not assign task: user not found in database'' \<and>
      caughtError (addTodo ghostStore alice ?st (lit '' Buy milk '')) = None \<and>
      dispatched (addTodo ghostStore alice ?st (lit '' Buy milk '')) = []"
    by blast
  from addTodo_foreign_key_fallback
         [where storeInsert = orphanStore and newTodo = ?new and e = ?o and ?e2.0 = ?o
            and user = alice and st = ?st and taskText = "lit '' Buy milk ''", OF a b c d' e'] f'
  have rejected: "caughtError (addTodo orphanStore alice ?st (lit '' Buy milk '')) = Some ?o \<and>
      dispatched (addTodo orphanStore alice ?st (lit '' Buy milk '')) = []"
    by blast
  from a b d f f' g accepted rejected show ?thesis
    by simp
qed

text \<open>
  The claim as written fails: the requested assignee is no user, the store rejects the
  insert with a foreign key violation, and it rejects the second insert as well, here
  because the acting user is no user either.  Two inserts were made, no task was created,
  and the error text is the store's message, not the warning.
\<close>

theorem rejected_retry_creates_no_task:
  "storeCalls (addTodo orphanStore alice (emptyForm\<lparr>newTaskAssignedTo := Some (lit ''ghost-user'')\<rparr>)
       (lit ''Buy milk''))
     = [InsertTodo \<lparr>new_task = lit ''Buy milk'', new_user_id = lit ''alice'',
                    new_assigned_to = Some (lit ''ghost-user''), new_due_date = None,
                    new_created_by = lit ''alice''\<rparr>,
        InsertTodo \<lparr>new_task = lit ''Buy milk'', new_user_id = lit ''alice'',
                    new_assigned_to = None, new_due_date = None,
                    new_created_by = lit ''alice''\<rparr>] \<and>
   todoResult (addTodo orphanStore alice (emptyForm\<lparr>newTaskAssignedTo := Some (lit ''ghost-user'')\<rparr>)
       (lit ''Buy milk'')) = None \<and>
   errorText (finalState (addTodo orphanStore alice
       (emptyForm\<lparr>newTaskAssignedTo := Some (lit ''ghost-user'')\<rparr>) (lit ''Buy milk'')))
     = lit ''insert or update on table \"todos\" violates foreign key constraint \"todos_user_id_fkey\"''"
  by (simp add: addTodo_def Let_def addTodoCatch_def orphanStore_def emptyForm_def alice_def
        trim_def isWhiteSpace_def lit_def)

text \<open>
  Claim C6, as the code has it.  \<open>addTodo\<close> tests \<open>task.length\<close> only for zero.  A
  description that is empty after trimming leaves everything as it was: no call to the
  store, no task, no error text.  Every other description, whatever its length, is sent to
  the store in a first insert; the minimum of 4 characters is a check of the store's schema.
\<close>

theorem addTodo_rejects_only_blank:
  "(trim taskText = [] \<longrightarrow>
      addTodo storeInsert user st taskText
        = \<lparr>finalState = st, storeCalls = [], dispatched = [], todoResult = None, caughtError = None\<rparr>) \<and>
   (trim taskText \<noteq> [] \<longrightarrow>
      hd (storeCalls (addTodo storeInsert user st taskText))
        = InsertTodo \<lparr>new_task = trim taskText, new_user_id = auth_id user,
                      new_assigned_to = newTaskAssignedTo st, new_due_date = newTaskDueDate st,
                      new_created_by = auth_id user\<rparr> \<and>
      storeCalls (addTodo storeInsert user st taskText) \<noteq> [])"
  by (simp add: addTodo_def Let_def addTodoCatch_def addTodoFinish_def split: option.splits)

theorem addTodo_rejects_only_blank_witness:
  "trim (lit ''   '') = [] \<and>
   storeCalls (addTodo checkingStore alice emptyForm (lit ''   '')) = [] \<and>
   trim (lit ''Buy milk'') \<noteq> [] \<and>
   storeCalls (addTodo checkingStore alice emptyForm (lit ''Buy milk'')) \<noteq> []"
proof -
  have a: "trim (lit ''   '') = []"
    by (simp add: trim_def isWhiteSpace_def lit_def)
  have b: "trim (lit ''Buy milk'') \<noteq> []"
    by (simp add: trim_def isWhiteSpace_def lit_def)
  from a addTodo_rejects_only_blank [of "lit ''   ''" checkingStore alice emptyForm]
  have "storeCalls (addTodo checkingStore alice emptyForm (lit ''   '')) = []"
    by simp
  moreover from b addTodo_rejects_only_blank [of "lit ''Buy milk''" checkingStore alice emptyForm]
  have "storeCalls (addTodo checkingStore alice emptyForm (lit ''Buy milk'')) \<noteq> []"
    by simp
  ultimately show ?thesis using a b by simp
qed

text \<open>
  The claim as written fails: \<open>abc\<close> has 3 characters and is sent to the store, here one
  that enforces the schema's check and rejects the row.
\<close>

theorem short_description_reaches_store:
  "length (trim (lit ''abc'')) = 3 \<and>
   storeCalls (addTodo checkingStore alice emptyForm (lit ''abc''))
     = [InsertTodo \<lparr>new_task = lit ''abc'', new_user_id = lit ''alice'', new_assigned_to = None,
                    new_due_date = None, new_created_by = lit ''alice''\<rparr>]"
  by (simp add: addTodo_def addTodoCatch_def addTodoFinish_def checkingStore_def emptyForm_def
        alice_def trim_def isWhiteSpace_def lit_def)

section \<open>Properties of reassignment\<close>

text \<open>
  What \<open>updateTodoAssignment\<close> dispatches when the store accepts the update: nothing when
  the assignee is cleared, and one notification, addressed to the assignee, when the
  assignee is a user other than the acting one.
\<close>

lemma updateTodoAssignment_cleared:
  assumes "storeUpdate (todo_id todo) None = \<lparr>data = Some row, error = None\<rparr>"
    and "assigned_to row = None"
  shows "dispatched (updateTodoAssignment storeUpdate user st todo None) = []"
  using assms by (simp add: updateTodoAssignment_def Let_def assignmentNotification_def)

lemma updateTodoAssignment_other_user:
  assumes "storeUpdate (todo_id todo) (Some a) = \<lparr>data = Some row, error = None\<rparr>"
    and "assigned_to row = Some a" and "a \<noteq> []" and "a \<noteq> auth_id user"
  shows "map ins_user_id (dispatched (updateTodoAssignment storeUpdate user st todo (Some a))) = [a]"
  using assms
  by (simp add: updateTodoAssignment_def Let_def assignmentNotification_def
        createTaskAssignmentNotification_def)

text \<open>
  The dispatch block is commented \<open>Create a notification if the task is assigned to someone
  new\<close>, but it compares the returned assignee with the acting user only.  The assignee the
  task has before the call plays no part in what is dispatched.
\<close>

lemma updateTodoAssignment_ignores_current_assignee:
  "dispatched (updateTodoAssignment storeUpdate user st (todo\<lparr>assigned_to := x\<rparr>) a)
     = dispatched (updateTodoAssignment storeUpdate user st todo a)"
  by (simp add: updateTodoAssignment_def Let_def split: option.splits)

text \<open>
  Claim C2 says that assigning a task to the assignee it already has dispatches nothing.
  The code departs from it: task 1 is assigned to Bob, both in the list and in the store,
  Alice assigns it to Bob again, the store accepts, and Bob is sent a notification.
\<close>

theorem reassign_to_current_assignee_notifies:
  "assigned_to (task1 (Some (lit ''bob'')) None) = Some (lit ''bob'') \<and>
   dispatched (updateTodoAssignment (acceptingUpdate (task1 (Some (lit ''bob'')) None)) alice
       (emptyForm\<lparr>todos := [task1 (Some (lit ''bob'')) None]\<rparr>)
       (task1 (Some (lit ''bob'')) None) (Some (lit ''bob'')))
     = [createTaskAssignmentNotification 1 (lit ''bob'') (lit ''Buy milk'') (lit ''alice@x.io'')]"
  by (simp add: updateTodoAssignment_def acceptingUpdate_def assignmentNotification_def
        task1_def alice_def orDefault_def lit_def)


end
